theory Spec2Isabelle
  imports Complex_Main
begin

section \<open>Arcade Physics: tile separation on X and the vertical overlap check\<close>

text \<open>
  The development embeds two functions of the Arcade Physics core,
  \<^verbatim>\<open>ProcessTileSeparationX(body, x)\<close> and \<^verbatim>\<open>CheckOverlapY(body, collisionInfo)\<close>.
  Both mutate Body objects that they reach through references, so the objects live in an
  explicit store and every function takes the store and returns the updated one.

  JavaScript numbers are modelled as reals: finite values with exact arithmetic. The
  functions only compare with zero, subtract, negate and multiply; NaN, the infinities
  and rounding are outside the model.
\<close>

subsection \<open>Data model\<close>

type_synonym ref = nat

text \<open>A Vector2 object: the \<^verbatim>\<open>x\<close> and \<^verbatim>\<open>y\<close> components.\<close>

record vector2 =
  vec_x :: real
  vec_y :: real

text \<open>
  The face flags of a body. \<^verbatim>\<open>body.blocked\<close> has the four faces,
  \<^verbatim>\<open>body.touching\<close> has the four faces and \<^verbatim>\<open>none\<close>.
\<close>

record faces =
  up :: bool
  down :: bool
  left :: bool
  right :: bool

record touching_faces = faces +
  none :: bool

text \<open>
  Modelled from the spec: the Body class is not part of the sources at hand; its fields are
  the attributes of the Body data model. Functions work on the extensible record, so
  fields that are not listed here are carried along unchanged in the extension part.
\<close>

record body =
  position :: vector2
  prev :: vector2
  width :: real
  height :: real
  velocity :: vector2
  acceleration :: vector2
  drag :: vector2
  bounce :: vector2
  mass :: real
  immovable :: bool
  blocked :: faces
  touching :: touching_faces
  embedded :: bool

text \<open>
  Modelled from the spec: a tile collision cell, owned by the tilemap and read-only to the
  physics core.
\<close>

record tile =
  collideUp :: bool
  collideDown :: bool
  collideLeft :: bool
  collideRight :: bool
  tile_index :: int

text \<open>The store: every reference denotes an object.\<close>

record 'z world =
  bodies :: "ref \<Rightarrow> 'z body_scheme"
  tiles :: "ref \<Rightarrow> tile"

text \<open>An in-place change of the object behind a body reference.\<close>

definition upd_body :: "ref \<Rightarrow> ('z body_scheme \<Rightarrow> 'z body_scheme) \<Rightarrow> 'z world \<Rightarrow> 'z world" where
  "upd_body r f w = w\<lparr>bodies := (bodies w)(r := f (bodies w r))\<rparr>"

subsection \<open>ProcessTileSeparationX\<close>

text \<open>
  \<^verbatim>\<open>
  var ProcessTileSeparationX = function (body, x)
  {
      if (x < 0)      { body.blocked.left = true; }
      else if (x > 0) { body.blocked.right = true; }

      body.position.x -= x;

      if (body.bounce.x === 0) { body.velocity.x = 0; }
      else { body.velocity.x = -body.velocity.x * body.bounce.x; }
  };
  \<close>
\<close>

definition ProcessTileSeparationX :: "ref \<Rightarrow> real \<Rightarrow> 'z world \<Rightarrow> 'z world" where
  "ProcessTileSeparationX body x w =
     (let w1 = (if x < 0 then
                  upd_body body (\<lambda>b. b\<lparr>blocked := (blocked b)\<lparr>left := True\<rparr>\<rparr>) w
                else if x > 0 then
                  upd_body body (\<lambda>b. b\<lparr>blocked := (blocked b)\<lparr>right := True\<rparr>\<rparr>) w
                else w);
          w2 = upd_body body
                 (\<lambda>b. b\<lparr>position := (position b)\<lparr>vec_x := vec_x (position b) - x\<rparr>\<rparr>) w1;
          w3 = (if vec_x (bounce (bodies w2 body)) = 0 then
                  upd_body body (\<lambda>b. b\<lparr>velocity := (velocity b)\<lparr>vec_x := 0\<rparr>\<rparr>) w2
                else
                  upd_body body
                    (\<lambda>b. b\<lparr>velocity := (velocity b)
                           \<lparr>vec_x := (- vec_x (velocity b)) * vec_x (bounce b)\<rparr>\<rparr>) w2)
      in w3)"

subsection \<open>CheckOverlapY\<close>

text \<open>
  Modelled from the spec: the Arcade constants file is not part of the sources at hand; the
  face of a CollisionInfo is one of UP, DOWN, LEFT, RIGHT and NONE.
\<close>

datatype facing = FACING_NONE | FACING_UP | FACING_DOWN | FACING_LEFT | FACING_RIGHT

text \<open>
  Modelled from the spec: the CollisionInfo object is not part of the sources at hand. It
  holds borrowed references to the two bodies, the intersection flag, the signed overlaps,
  the resolved face and the touching flag.
\<close>

record collisionInfo =
  ci_body1 :: ref
  ci_body2 :: ref
  ci_intersects :: bool
  ci_overlapX :: real
  ci_overlapY :: real
  ci_face :: facing
  ci_touching :: bool

text \<open>
  Modelled from the spec: the Body methods \<^verbatim>\<open>setTouchingUp\<close>, \<^verbatim>\<open>setTouchingDown\<close>,
  \<^verbatim>\<open>setBlockedUp\<close> and \<^verbatim>\<open>setBlockedDown\<close> are not part of the sources at hand. Each
  one updates the flag of the body that its name says, for the resolved face: it sets that
  flag to true.
\<close>

definition setTouchingUp :: "ref \<Rightarrow> 'z world \<Rightarrow> 'z world" where
  "setTouchingUp r = upd_body r (\<lambda>b. b\<lparr>touching := (touching b)\<lparr>up := True\<rparr>\<rparr>)"

definition setTouchingDown :: "ref \<Rightarrow> 'z world \<Rightarrow> 'z world" where
  "setTouchingDown r = upd_body r (\<lambda>b. b\<lparr>touching := (touching b)\<lparr>down := True\<rparr>\<rparr>)"

definition setBlockedUp :: "ref \<Rightarrow> 'z world \<Rightarrow> 'z world" where
  "setBlockedUp r = upd_body r (\<lambda>b. b\<lparr>blocked := (blocked b)\<lparr>up := True\<rparr>\<rparr>)"

definition setBlockedDown :: "ref \<Rightarrow> 'z world \<Rightarrow> 'z world" where
  "setBlockedDown r = upd_body r (\<lambda>b. b\<lparr>blocked := (blocked b)\<lparr>down := True\<rparr>\<rparr>)"

text \<open>
  \<^verbatim>\<open>
  var CheckOverlapY = function (body, collisionInfo)
  {
      collisionInfo = CollisionInfo.update(collisionInfo);

      var face = collisionInfo.face;
      var body1 = collisionInfo.body1;
      var body2 = collisionInfo.body2;

      if (face === CONST.FACING_UP)
      {
          body1.setTouchingUp();   body2.setTouchingDown();
          body1.setBlockedUp();    body2.setBlockedDown();
      }
      else if (face === CONST.FACING_DOWN)
      {
          body1.setTouchingDown(); body2.setTouchingUp();
          body1.setBlockedDown();  body2.setBlockedUp();
      }

      return collisionInfo.touching;
  };
  \<close>
  \<^verbatim>\<open>CollisionInfo.update\<close> is not part of the sources at hand, so it is a parameter
  of the model: a recomputation of the CollisionInfo from the current state of the bodies,
  which it reads and does not change. The properties of CheckOverlapY are proved for
  every such function; a model of the recomputation, from its description, follows below
  and is what the function is evaluated with. The parameter \<open>body\<close> is not used by the
  source either. The result is the returned boolean and the store after the call.
\<close>

definition CheckOverlapY ::
  "('z world \<Rightarrow> collisionInfo \<Rightarrow> collisionInfo) \<Rightarrow> ref \<Rightarrow> collisionInfo \<Rightarrow> 'z world
     \<Rightarrow> bool \<times> 'z world" where
  "CheckOverlapY update body collisionInfo w =
     (let collisionInfo = update w collisionInfo;
          face = ci_face collisionInfo;
          body1 = ci_body1 collisionInfo;
          body2 = ci_body2 collisionInfo;
          w' = (if face = FACING_UP then
                  setBlockedDown body2 (setBlockedUp body1
                    (setTouchingDown body2 (setTouchingUp body1 w)))
                else if face = FACING_DOWN then
                  setBlockedUp body2 (setBlockedDown body1
                    (setTouchingUp body2 (setTouchingDown body1 w)))
                else w)
      in (ci_touching collisionInfo, w'))"

subsection \<open>Concrete states used to evaluate the functions\<close>

definition no_faces :: faces where
  "no_faces = \<lparr>up = False, down = False, left = False, right = False\<rparr>"

definition no_touching :: touching_faces where
  "no_touching = \<lparr>up = False, down = False, left = False, right = False, none = True\<rparr>"

definition vec :: "real \<Rightarrow> real \<Rightarrow> vector2" where
  "vec a b = \<lparr>vec_x = a, vec_y = b\<rparr>"

text \<open>A 32 by 32 body at \<open>(px, py)\<close> with velocity \<open>(v, 0)\<close> and bounce \<open>(bnc, 0)\<close>.\<close>

definition mk_body :: "real \<Rightarrow> real \<Rightarrow> real \<Rightarrow> real \<Rightarrow> body" where
  "mk_body px py v bnc =
     \<lparr>position = vec px py, prev = vec px py, width = 32, height = 32,
      velocity = vec v 0, acceleration = vec 0 0, drag = vec 0 0, bounce = vec bnc 0,
      mass = 1, immovable = False, blocked = no_faces, touching = no_touching,
      embedded = False\<rparr>"

definition solid_tile :: tile where
  "solid_tile = \<lparr>collideUp = True, collideDown = True, collideLeft = True,
                 collideRight = True, tile_index = 1\<rparr>"

text \<open>A store in which every body reference denotes \<open>b\<close> and every tile is solid.\<close>

definition mk_world :: "body \<Rightarrow> unit world" where
  "mk_world b = \<lparr>bodies = (\<lambda>_. b), tiles = (\<lambda>_. solid_tile)\<rparr>"

subsection \<open>The recomputation of a CollisionInfo\<close>

text \<open>The right and bottom edges of a body's box; its position is the top-left corner.\<close>

definition body_right :: "'z body_scheme \<Rightarrow> real" where
  "body_right b = vec_x (position b) + width b"

definition body_bottom :: "'z body_scheme \<Rightarrow> real" where
  "body_bottom b = vec_y (position b) + height b"

text \<open>
  What the description of the overlap check leaves open is a parameter of the
  recomputation: the epsilon under which an overlap counts as edges that just meet; the
  rule that picks the resolving axis from the overlaps on X and on Y (true for the Y
  axis); and the rules that say with which of its two faces on that axis the first body
  meets the second (its top or its bottom, its left or its right).
\<close>

record 'z contact_rules =
  rule_epsilon :: real
  rule_vertical :: "real \<Rightarrow> real \<Rightarrow> bool"
  rule_top :: "'z body_scheme \<Rightarrow> 'z body_scheme \<Rightarrow> bool"
  rule_left :: "'z body_scheme \<Rightarrow> 'z body_scheme \<Rightarrow> bool"

text \<open>
  Modelled from the spec: \<^verbatim>\<open>CollisionInfo.update\<close> is not part of the sources at hand.
  The overlap check is described as follows. It computes the intersection of the two
  boxes; if there is none the result is not intersecting. If they intersect,
  \<open>overlapX = min(b1.right, b2.right) - max(b1.x, b2.x)\<close> and the same on Y; the face is
  on the resolving axis, picked from the two overlaps; touching is true when the overlap
  on the resolving axis is at most an epsilon (edges just meeting), and false on a deep
  penetration, where only intersects holds. Boxes whose edges coincide intersect, since a
  touching contact is an intersecting one. The bodies are read and not changed.
\<close>

definition CollisionInfo_update ::
  "'z contact_rules \<Rightarrow> 'z world \<Rightarrow> collisionInfo \<Rightarrow> collisionInfo" where
  "CollisionInfo_update rules w ci =
     (let b1 = bodies w (ci_body1 ci);
          b2 = bodies w (ci_body2 ci);
          overlapX = min (body_right b1) (body_right b2)
                       - max (vec_x (position b1)) (vec_x (position b2));
          overlapY = min (body_bottom b1) (body_bottom b2)
                       - max (vec_y (position b1)) (vec_y (position b2))
      in if overlapX < 0 \<or> overlapY < 0 then
           ci\<lparr>ci_intersects := False, ci_face := FACING_NONE, ci_touching := False\<rparr>
         else if rule_vertical rules overlapX overlapY then
           ci\<lparr>ci_intersects := True, ci_overlapX := overlapX, ci_overlapY := overlapY,
              ci_face := (if rule_top rules b1 b2 then FACING_UP else FACING_DOWN),
              ci_touching := (overlapY \<le> rule_epsilon rules)\<rparr>
         else
           ci\<lparr>ci_intersects := True, ci_overlapX := overlapX, ci_overlapY := overlapY,
              ci_face := (if rule_left rules b1 b2 then FACING_LEFT else FACING_RIGHT),
              ci_touching := (overlapX \<le> rule_epsilon rules)\<rparr>)"

subsection \<open>Concrete contacts used to evaluate CheckOverlapY\<close>

text \<open>
  The rules used in the evaluations. The epsilon is 1. The resolving axis is the axis of
  least penetration, the one whose overlap is smaller (the Y axis when they are equal).
  The face is taken from the relative velocity on the resolving axis, as in the scenario
  of a body that moves right into an immovable one and is blocked on its right face: a
  body moving up relative to the other meets it with its top, a body moving left with its
  left face.
\<close>

definition by_velocity :: "unit contact_rules" where
  "by_velocity =
     \<lparr>rule_epsilon = 1,
      rule_vertical = (\<lambda>overlapX overlapY. overlapY \<le> overlapX),
      rule_top = (\<lambda>b1 b2. vec_y (velocity b1) < vec_y (velocity b2)),
      rule_left = (\<lambda>b1 b2. vec_x (velocity b1) < vec_x (velocity b2))\<rparr>"

text \<open>A 32 by 32 body at \<open>(px, py)\<close> with velocity \<open>(vx, vy)\<close>, no bounce, no flag set.\<close>

definition moving_body :: "real \<Rightarrow> real \<Rightarrow> real \<Rightarrow> real \<Rightarrow> body" where
  "moving_body px py vx vy = (mk_body px py vx 0)\<lparr>velocity := vec vx vy\<rparr>"

text \<open>A store with \<open>b1\<close> behind reference 0 and \<open>b2\<close> behind every other reference.\<close>

definition pair_world :: "body \<Rightarrow> body \<Rightarrow> unit world" where
  "pair_world b1 b2 = \<lparr>bodies = (\<lambda>r. if r = 0 then b1 else b2), tiles = (\<lambda>_. solid_tile)\<rparr>"

text \<open>A CollisionInfo for the bodies 0 and 1 that has not been computed yet.\<close>

definition fresh_info :: collisionInfo where
  "fresh_info = \<lparr>ci_body1 = 0, ci_body2 = 1, ci_intersects = False, ci_overlapX = 0,
     ci_overlapY = 0, ci_face = FACING_NONE, ci_touching = False\<rparr>"

text \<open>
  Placements of body 0, at the origin, against body 1, which is at rest:
  body 0 moves up and is 12 deep in body 1 above it; body 0 moves up and its top edge
  meets the bottom edge of body 1; body 0 moves down and its bottom edge meets the top
  edge of body 1; body 0 moves left and its left edge meets the right edge of body 1; the
  two bodies are apart. In the last one body 0 moves up and the boxes overlap by 12 on X
  and by 32 on Y.
\<close>

definition deep_above :: "unit world" where
  "deep_above = pair_world (moving_body 0 0 0 (- 100)) (moving_body 0 (- 20) 0 0)"

definition meets_above :: "unit world" where
  "meets_above = pair_world (moving_body 0 0 0 (- 100)) (moving_body 0 (- 32) 0 0)"

definition meets_below :: "unit world" where
  "meets_below = pair_world (moving_body 0 0 0 100) (moving_body 0 32 0 0)"

definition meets_beside :: "unit world" where
  "meets_beside = pair_world (moving_body 0 0 (- 100) 0) (moving_body (- 32) 0 0 0)"

definition apart :: "unit world" where
  "apart = pair_world (moving_body 0 0 0 100) (moving_body 100 100 0 0)"

definition deep_narrow :: "unit world" where
  "deep_narrow = pair_world (moving_body 0 0 0 (- 100)) (moving_body (- 20) 0 0 0)"

text \<open>The overlap check of the bodies 0 and 1 of a store, from a CollisionInfo not yet computed.\<close>

definition check_pair :: "unit world \<Rightarrow> bool \<times> unit world" where
  "check_pair w = CheckOverlapY (CollisionInfo_update by_velocity) 0 fresh_info w"

section \<open>Properties of ProcessTileSeparationX\<close>

lemma bodies_upd_body_same: "bodies (upd_body r f w) r = f (bodies w r)"
  by (simp add: upd_body_def)

lemma bodies_upd_body_other: "r' \<noteq> r \<Longrightarrow> bodies (upd_body r f w) r' = bodies w r'"
  by (simp add: upd_body_def)

lemma tiles_upd_body: "tiles (upd_body r f w) = tiles w"
  by (simp add: upd_body_def)

lemmas PTS_simps = ProcessTileSeparationX_def Let_def bodies_upd_body_same tiles_upd_body

lemmas setter_simps = setTouchingUp_def setTouchingDown_def setBlockedUp_def
  setBlockedDown_def upd_body_def

lemmas concrete_simps = mk_world_def mk_body_def vec_def no_faces_def no_touching_def
  solid_tile_def

lemmas contact_simps = CollisionInfo_update_def body_right_def body_bottom_def Let_def
  by_velocity_def moving_body_def pair_world_def fresh_info_def mk_body_def vec_def
  no_faces_def no_touching_def

text \<open>
  Claim C1. After repositioning, ProcessTileSeparationX applies bounce: if \<open>bounce.x\<close> is
  0 then \<open>velocity.x\<close> becomes 0, otherwise it becomes \<open>-velocity.x * bounce.x\<close>. No
  tile is modified by the call.
\<close>

theorem ProcessTileSeparationX_bounce:
  "vec_x (velocity (bodies (ProcessTileSeparationX body x w) body))
     = (if vec_x (bounce (bodies w body)) = 0 then 0
        else (- vec_x (velocity (bodies w body))) * vec_x (bounce (bodies w body)))
   \<and> tiles (ProcessTileSeparationX body x w) = tiles w"
  by (simp add: PTS_simps)

text \<open>
  At a body moving right at 100 that overlaps a tile by 8: with bounce 0 it stops, with
  bounce 1/2 it leaves at -50, and the tiles stay as they were.
\<close>

theorem ProcessTileSeparationX_bounce_witness:
  "vec_x (velocity (bodies (ProcessTileSeparationX 0 8 (mk_world (mk_body 50 0 100 0))) 0)) = 0
   \<and> vec_x (velocity
         (bodies (ProcessTileSeparationX 0 8 (mk_world (mk_body 50 0 100 (1/2)))) 0)) = - 50
   \<and> tiles (ProcessTileSeparationX 0 8 (mk_world (mk_body 50 0 100 0))) = (\<lambda>_. solid_tile)"
  using ProcessTileSeparationX_bounce [of 0 8 "mk_world (mk_body 50 0 100 0)"]
        ProcessTileSeparationX_bounce [of 0 8 "mk_world (mk_body 50 0 100 (1/2))"]
  by (simp add: mk_world_def mk_body_def vec_def)

text \<open>
  Claim C2. For every body and every separation amount \<open>x\<close>, after
  ProcessTileSeparationX the body's \<open>position.x\<close> is the old \<open>position.x\<close> minus \<open>x\<close>.
\<close>

theorem ProcessTileSeparationX_position_x:
  "vec_x (position (bodies (ProcessTileSeparationX body x w) body))
     = vec_x (position (bodies w body)) - x"
  by (simp add: PTS_simps)

text \<open>
  Claim C3. ProcessTileSeparationX sets the blocked flag by the sign of \<open>x\<close>:
  \<open>blocked.left\<close> after the call is true exactly when it was true before or \<open>x < 0\<close>, and
  \<open>blocked.right\<close> exactly when it was true before or \<open>x > 0\<close>. So for \<open>x < 0\<close>
  \<open>blocked.left\<close> becomes true, for \<open>x > 0\<close> \<open>blocked.right\<close> becomes true, the flag of
  the other side is never raised, and for \<open>x = 0\<close> neither flag is set.
\<close>

theorem ProcessTileSeparationX_blocked:
  "left (blocked (bodies (ProcessTileSeparationX body x w) body))
     = (left (blocked (bodies w body)) \<or> x < 0)
   \<and> right (blocked (bodies (ProcessTileSeparationX body x w) body))
     = (right (blocked (bodies w body)) \<or> 0 < x)
   \<and> (x < 0 \<longrightarrow> left (blocked (bodies (ProcessTileSeparationX body x w) body)))
   \<and> (x > 0 \<longrightarrow> right (blocked (bodies (ProcessTileSeparationX body x w) body)))
   \<and> (x = 0 \<longrightarrow>
        left (blocked (bodies (ProcessTileSeparationX body x w) body))
          = left (blocked (bodies w body))
      \<and> right (blocked (bodies (ProcessTileSeparationX body x w) body))
          = right (blocked (bodies w body)))"
  by (simp add: PTS_simps)

text \<open>
  At a separation of -8, of 8 and of 0, from a body with no blocked flag: only left is
  set, only right is set, neither is set.
\<close>

theorem ProcessTileSeparationX_blocked_witness:
  "(- 8 :: real) < 0 \<and> (8 :: real) > 0
   \<and> left (blocked (bodies (ProcessTileSeparationX 0 (- 8) (mk_world (mk_body 50 0 (- 100) 0))) 0))
   \<and> \<not> right (blocked (bodies (ProcessTileSeparationX 0 (- 8) (mk_world (mk_body 50 0 (- 100) 0))) 0))
   \<and> right (blocked (bodies (ProcessTileSeparationX 0 8 (mk_world (mk_body 50 0 100 0))) 0))
   \<and> \<not> left (blocked (bodies (ProcessTileSeparationX 0 8 (mk_world (mk_body 50 0 100 0))) 0))
   \<and> \<not> left (blocked (bodies (ProcessTileSeparationX 0 0 (mk_world (mk_body 50 0 100 0))) 0))
   \<and> \<not> right (blocked (bodies (ProcessTileSeparationX 0 0 (mk_world (mk_body 50 0 100 0))) 0))"
  using ProcessTileSeparationX_blocked [of 0 "- 8" "mk_world (mk_body 50 0 (- 100) 0)"]
        ProcessTileSeparationX_blocked [of 0 8 "mk_world (mk_body 50 0 100 0)"]
        ProcessTileSeparationX_blocked [of 0 0 "mk_world (mk_body 50 0 100 0)"]
  by (simp add: mk_world_def mk_body_def vec_def no_faces_def)

text \<open>
  Claim C4, as amended. With \<open>x = 0\<close> ProcessTileSeparationX leaves the body's position
  and blocked flags unchanged, and \<open>velocity.y\<close> too; \<open>velocity.x\<close> still gets the bounce
  response: 0 if \<open>bounce.x\<close> is 0, else \<open>-velocity.x * bounce.x\<close>. The function has no
  test of \<open>x\<close> around the bounce.
\<close>

theorem ProcessTileSeparationX_zero:
  "position (bodies (ProcessTileSeparationX body 0 w) body) = position (bodies w body)
   \<and> blocked (bodies (ProcessTileSeparationX body 0 w) body) = blocked (bodies w body)
   \<and> vec_y (velocity (bodies (ProcessTileSeparationX body 0 w) body))
       = vec_y (velocity (bodies w body))
   \<and> vec_x (velocity (bodies (ProcessTileSeparationX body 0 w) body))
       = (if vec_x (bounce (bodies w body)) = 0 then 0
          else (- vec_x (velocity (bodies w body))) * vec_x (bounce (bodies w body)))"
  by (simp add: PTS_simps)

text \<open>
  The claim as stated (a separation of 0 leaves the velocity unchanged) fails at a body
  with velocity 100 and bounce 0: the call stops it.
\<close>

theorem ProcessTileSeparationX_zero_counterexample:
  "vec_x (velocity (bodies (mk_world (mk_body 50 0 100 0)) 0)) = 100
   \<and> vec_x (velocity (bodies (ProcessTileSeparationX 0 0 (mk_world (mk_body 50 0 100 0))) 0)) = 0
   \<and> velocity (bodies (ProcessTileSeparationX 0 0 (mk_world (mk_body 50 0 100 0))) 0)
       \<noteq> velocity (bodies (mk_world (mk_body 50 0 100 0)) 0)"
  by (simp add: PTS_simps mk_world_def mk_body_def vec_def)

theorem ProcessTileSeparationX_zero_witness:
  "position (bodies (ProcessTileSeparationX 0 0 (mk_world (mk_body 50 0 100 (1/2)))) 0) = vec 50 0
   \<and> blocked (bodies (ProcessTileSeparationX 0 0 (mk_world (mk_body 50 0 100 (1/2)))) 0)
       = no_faces
   \<and> vec_x (velocity (bodies (ProcessTileSeparationX 0 0 (mk_world (mk_body 50 0 100 (1/2)))) 0))
       = - 50"
  using ProcessTileSeparationX_zero [of 0 "mk_world (mk_body 50 0 100 (1/2))"]
  by (simp add: mk_world_def mk_body_def vec_def)

text \<open>
  Claim C5. Bounce energy law against a tile: for a nonzero separation amount, if
  \<open>bounce.x\<close> is 1 then \<open>|velocity.x|\<close> after the call equals \<open>|velocity.x|\<close> before, and
  if \<open>bounce.x\<close> is 0 then \<open>velocity.x\<close> after the call is 0.
\<close>

theorem ProcessTileSeparationX_energy:
  "x \<noteq> 0 \<Longrightarrow>
   (vec_x (bounce (bodies w body)) = 1 \<longrightarrow>
      \<bar>vec_x (velocity (bodies (ProcessTileSeparationX body x w) body))\<bar>
        = \<bar>vec_x (velocity (bodies w body))\<bar>)
   \<and> (vec_x (bounce (bodies w body)) = 0 \<longrightarrow>
      vec_x (velocity (bodies (ProcessTileSeparationX body x w) body)) = 0)"
  by (simp add: PTS_simps)

theorem ProcessTileSeparationX_energy_witness:
  "(8::real) \<noteq> 0
   \<and> \<bar>vec_x (velocity (bodies (ProcessTileSeparationX 0 8 (mk_world (mk_body 50 0 100 1))) 0))\<bar>
       = 100
   \<and> vec_x (velocity (bodies (ProcessTileSeparationX 0 8 (mk_world (mk_body 50 0 100 0))) 0)) = 0"
  using ProcessTileSeparationX_energy [of 8 "mk_world (mk_body 50 0 100 1)" 0]
        ProcessTileSeparationX_energy [of 8 "mk_world (mk_body 50 0 100 0)" 0]
  by (simp add: mk_world_def mk_body_def vec_def)

text \<open>
  Claim C9. ProcessTileSeparationX only modifies X-axis state: the body after the call is
  the body before it with new values in \<open>position.x\<close>, \<open>velocity.x\<close>, \<open>blocked.left\<close> and
  \<open>blocked.right\<close> at most. In particular \<open>position.y\<close>, \<open>velocity.y\<close>, \<open>bounce\<close>,
  \<open>blocked.up\<close>, \<open>blocked.down\<close>, the touching flags and every field of an extension of
  the record are unchanged.
\<close>

theorem ProcessTileSeparationX_frame:
  "bodies (ProcessTileSeparationX body x w) body
     = (bodies w body)
         \<lparr>position := (position (bodies w body))
            \<lparr>vec_x := vec_x (position (bodies (ProcessTileSeparationX body x w) body))\<rparr>,
          velocity := (velocity (bodies w body))
            \<lparr>vec_x := vec_x (velocity (bodies (ProcessTileSeparationX body x w) body))\<rparr>,
          blocked := (blocked (bodies w body))
            \<lparr>left := left (blocked (bodies (ProcessTileSeparationX body x w) body)),
             right := right (blocked (bodies (ProcessTileSeparationX body x w) body))\<rparr>\<rparr>
   \<and> vec_y (position (bodies (ProcessTileSeparationX body x w) body))
       = vec_y (position (bodies w body))
   \<and> vec_y (velocity (bodies (ProcessTileSeparationX body x w) body))
       = vec_y (velocity (bodies w body))
   \<and> bounce (bodies (ProcessTileSeparationX body x w) body) = bounce (bodies w body)
   \<and> up (blocked (bodies (ProcessTileSeparationX body x w) body))
       = up (blocked (bodies w body))
   \<and> down (blocked (bodies (ProcessTileSeparationX body x w) body))
       = down (blocked (bodies w body))
   \<and> touching (bodies (ProcessTileSeparationX body x w) body) = touching (bodies w body)
   \<and> body.more (bodies (ProcessTileSeparationX body x w) body) = body.more (bodies w body)"
  by (simp add: PTS_simps)

section \<open>Properties of CheckOverlapY\<close>

text \<open>The three branches of CheckOverlapY and its return value, one lemma each.\<close>

lemma CheckOverlapY_returns:
  "fst (CheckOverlapY update body ci w) = ci_touching (update w ci)"
  by (simp add: CheckOverlapY_def Let_def)

lemma CheckOverlapY_up:
  assumes "ci_face (update w ci) = FACING_UP"
  shows "snd (CheckOverlapY update body ci w)
           = setBlockedDown (ci_body2 (update w ci)) (setBlockedUp (ci_body1 (update w ci))
               (setTouchingDown (ci_body2 (update w ci))
                 (setTouchingUp (ci_body1 (update w ci)) w)))"
  using assms by (simp add: CheckOverlapY_def Let_def)

lemma CheckOverlapY_down:
  assumes "ci_face (update w ci) = FACING_DOWN"
  shows "snd (CheckOverlapY update body ci w)
           = setBlockedUp (ci_body2 (update w ci)) (setBlockedDown (ci_body1 (update w ci))
               (setTouchingUp (ci_body2 (update w ci))
                 (setTouchingDown (ci_body1 (update w ci)) w)))"
  using assms by (simp add: CheckOverlapY_def Let_def)

lemma CheckOverlapY_neither:
  assumes "ci_face (update w ci) \<noteq> FACING_UP" and "ci_face (update w ci) \<noteq> FACING_DOWN"
  shows "snd (CheckOverlapY update body ci w) = w"
  using assms by (simp add: CheckOverlapY_def Let_def)

text \<open>
  The setters only raise flags, so a flag raised by one call survives the calls after it,
  also when both references denote the same body.
\<close>

lemma up_then_down:
  "up (touching (bodies (setBlockedDown r2 (setBlockedUp r1
        (setTouchingDown r2 (setTouchingUp r1 w)))) r1))
   \<and> up (blocked (bodies (setBlockedDown r2 (setBlockedUp r1
        (setTouchingDown r2 (setTouchingUp r1 w)))) r1))
   \<and> down (touching (bodies (setBlockedDown r2 (setBlockedUp r1
        (setTouchingDown r2 (setTouchingUp r1 w)))) r2))
   \<and> down (blocked (bodies (setBlockedDown r2 (setBlockedUp r1
        (setTouchingDown r2 (setTouchingUp r1 w)))) r2))"
  by (cases "r1 = r2") (simp_all add: setter_simps)

lemma down_then_up:
  "down (touching (bodies (setBlockedUp r2 (setBlockedDown r1
        (setTouchingUp r2 (setTouchingDown r1 w)))) r1))
   \<and> down (blocked (bodies (setBlockedUp r2 (setBlockedDown r1
        (setTouchingUp r2 (setTouchingDown r1 w)))) r1))
   \<and> up (touching (bodies (setBlockedUp r2 (setBlockedDown r1
        (setTouchingUp r2 (setTouchingDown r1 w)))) r2))
   \<and> up (blocked (bodies (setBlockedUp r2 (setBlockedDown r1
        (setTouchingUp r2 (setTouchingDown r1 w)))) r2))"
  by (cases "r1 = r2") (simp_all add: setter_simps)

text \<open>
  The same calls, exactly: on every body of the store, which flags are true afterwards.
\<close>

lemma up_then_down_exact:
  "up (touching (bodies (setBlockedDown r2 (setBlockedUp r1
        (setTouchingDown r2 (setTouchingUp r1 w)))) r)) = (up (touching (bodies w r)) \<or> r = r1)
   \<and> down (touching (bodies (setBlockedDown r2 (setBlockedUp r1
        (setTouchingDown r2 (setTouchingUp r1 w)))) r)) = (down (touching (bodies w r)) \<or> r = r2)
   \<and> up (blocked (bodies (setBlockedDown r2 (setBlockedUp r1
        (setTouchingDown r2 (setTouchingUp r1 w)))) r)) = (up (blocked (bodies w r)) \<or> r = r1)
   \<and> down (blocked (bodies (setBlockedDown r2 (setBlockedUp r1
        (setTouchingDown r2 (setTouchingUp r1 w)))) r)) = (down (blocked (bodies w r)) \<or> r = r2)"
  by (cases "r = r1"; cases "r = r2") (simp_all add: setter_simps)

lemma down_then_up_exact:
  "down (touching (bodies (setBlockedUp r2 (setBlockedDown r1
        (setTouchingUp r2 (setTouchingDown r1 w)))) r)) = (down (touching (bodies w r)) \<or> r = r1)
   \<and> up (touching (bodies (setBlockedUp r2 (setBlockedDown r1
        (setTouchingUp r2 (setTouchingDown r1 w)))) r)) = (up (touching (bodies w r)) \<or> r = r2)
   \<and> down (blocked (bodies (setBlockedUp r2 (setBlockedDown r1
        (setTouchingUp r2 (setTouchingDown r1 w)))) r)) = (down (blocked (bodies w r)) \<or> r = r1)
   \<and> up (blocked (bodies (setBlockedUp r2 (setBlockedDown r1
        (setTouchingUp r2 (setTouchingDown r1 w)))) r)) = (up (blocked (bodies w r)) \<or> r = r2)"
  by (cases "r = r1"; cases "r = r2") (simp_all add: setter_simps)

text \<open>The recomputed CollisionInfo of the five placements.\<close>

lemma update_deep_above:
  "CollisionInfo_update by_velocity deep_above fresh_info
     = \<lparr>ci_body1 = 0, ci_body2 = 1, ci_intersects = True, ci_overlapX = 32,
        ci_overlapY = 12, ci_face = FACING_UP, ci_touching = False\<rparr>"
  by (simp add: contact_simps deep_above_def)

lemma update_meets_above:
  "CollisionInfo_update by_velocity meets_above fresh_info
     = \<lparr>ci_body1 = 0, ci_body2 = 1, ci_intersects = True, ci_overlapX = 32,
        ci_overlapY = 0, ci_face = FACING_UP, ci_touching = True\<rparr>"
  by (simp add: contact_simps meets_above_def)

lemma update_meets_below:
  "CollisionInfo_update by_velocity meets_below fresh_info
     = \<lparr>ci_body1 = 0, ci_body2 = 1, ci_intersects = True, ci_overlapX = 32,
        ci_overlapY = 0, ci_face = FACING_DOWN, ci_touching = True\<rparr>"
  by (simp add: contact_simps meets_below_def)

lemma update_meets_beside:
  "CollisionInfo_update by_velocity meets_beside fresh_info
     = \<lparr>ci_body1 = 0, ci_body2 = 1, ci_intersects = True, ci_overlapX = 0,
        ci_overlapY = 32, ci_face = FACING_LEFT, ci_touching = True\<rparr>"
  by (simp add: contact_simps meets_beside_def)

lemma update_apart:
  "CollisionInfo_update by_velocity apart fresh_info
     = \<lparr>ci_body1 = 0, ci_body2 = 1, ci_intersects = False, ci_overlapX = 0,
        ci_overlapY = 0, ci_face = FACING_NONE, ci_touching = False\<rparr>"
  by (simp add: contact_simps apart_def)

text \<open>
  Claim C6. When the face of the updated CollisionInfo is vertical, CheckOverlapY updates
  the flags of both bodies as a mirrored pair: for FACING_UP body1 gets touching and
  blocked up and body2 gets touching and blocked down; for FACING_DOWN body1 gets touching
  and blocked down and body2 gets touching and blocked up. These are the only up and down
  flags that the call raises: on every body \<open>r\<close> of the store, an up or down flag is true
  afterwards exactly when it was true before or \<open>r\<close> is the body that gets it.
\<close>

theorem CheckOverlapY_mirrored:
  "(ci_face (update w ci) = FACING_UP \<longrightarrow>
      up (touching (bodies (snd (CheckOverlapY update body ci w)) (ci_body1 (update w ci))))
    \<and> up (blocked (bodies (snd (CheckOverlapY update body ci w)) (ci_body1 (update w ci))))
    \<and> down (touching (bodies (snd (CheckOverlapY update body ci w)) (ci_body2 (update w ci))))
    \<and> down (blocked (bodies (snd (CheckOverlapY update body ci w)) (ci_body2 (update w ci))))
    \<and> up (touching (bodies (snd (CheckOverlapY update body ci w)) r))
        = (up (touching (bodies w r)) \<or> r = ci_body1 (update w ci))
    \<and> down (touching (bodies (snd (CheckOverlapY update body ci w)) r))
        = (down (touching (bodies w r)) \<or> r = ci_body2 (update w ci))
    \<and> up (blocked (bodies (snd (CheckOverlapY update body ci w)) r))
        = (up (blocked (bodies w r)) \<or> r = ci_body1 (update w ci))
    \<and> down (blocked (bodies (snd (CheckOverlapY update body ci w)) r))
        = (down (blocked (bodies w r)) \<or> r = ci_body2 (update w ci)))
   \<and> (ci_face (update w ci) = FACING_DOWN \<longrightarrow>
      down (touching (bodies (snd (CheckOverlapY update body ci w)) (ci_body1 (update w ci))))
    \<and> down (blocked (bodies (snd (CheckOverlapY update body ci w)) (ci_body1 (update w ci))))
    \<and> up (touching (bodies (snd (CheckOverlapY update body ci w)) (ci_body2 (update w ci))))
    \<and> up (blocked (bodies (snd (CheckOverlapY update body ci w)) (ci_body2 (update w ci))))
    \<and> down (touching (bodies (snd (CheckOverlapY update body ci w)) r))
        = (down (touching (bodies w r)) \<or> r = ci_body1 (update w ci))
    \<and> up (touching (bodies (snd (CheckOverlapY update body ci w)) r))
        = (up (touching (bodies w r)) \<or> r = ci_body2 (update w ci))
    \<and> down (blocked (bodies (snd (CheckOverlapY update body ci w)) r))
        = (down (blocked (bodies w r)) \<or> r = ci_body1 (update w ci))
    \<and> up (blocked (bodies (snd (CheckOverlapY update body ci w)) r))
        = (up (blocked (bodies w r)) \<or> r = ci_body2 (update w ci)))"
proof (rule conjI)
  show "ci_face (update w ci) = FACING_UP \<longrightarrow>
      up (touching (bodies (snd (CheckOverlapY update body ci w)) (ci_body1 (update w ci))))
    \<and> up (blocked (bodies (snd (CheckOverlapY update body ci w)) (ci_body1 (update w ci))))
    \<and> down (touching (bodies (snd (CheckOverlapY update body ci w)) (ci_body2 (update w ci))))
    \<and> down (blocked (bodies (snd (CheckOverlapY update body ci w)) (ci_body2 (update w ci))))
    \<and> up (touching (bodies (snd (CheckOverlapY update body ci w)) r))
        = (up (touching (bodies w r)) \<or> r = ci_body1 (update w ci))
    \<and> down (touching (bodies (snd (CheckOverlapY update body ci w)) r))
        = (down (touching (bodies w r)) \<or> r = ci_body2 (update w ci))
    \<and> up (blocked (bodies (snd (CheckOverlapY update body ci w)) r))
        = (up (blocked (bodies w r)) \<or> r = ci_body1 (update w ci))
    \<and> down (blocked (bodies (snd (CheckOverlapY update body ci w)) r))
        = (down (blocked (bodies w r)) \<or> r = ci_body2 (update w ci))"
  proof
    assume "ci_face (update w ci) = FACING_UP"
    then have after: "snd (CheckOverlapY update body ci w)
        = setBlockedDown (ci_body2 (update w ci)) (setBlockedUp (ci_body1 (update w ci))
            (setTouchingDown (ci_body2 (update w ci))
              (setTouchingUp (ci_body1 (update w ci)) w)))"
      by (rule CheckOverlapY_up)
    show "up (touching (bodies (snd (CheckOverlapY update body ci w)) (ci_body1 (update w ci))))
      \<and> up (blocked (bodies (snd (CheckOverlapY update body ci w)) (ci_body1 (update w ci))))
      \<and> down (touching (bodies (snd (CheckOverlapY update body ci w)) (ci_body2 (update w ci))))
      \<and> down (blocked (bodies (snd (CheckOverlapY update body ci w)) (ci_body2 (update w ci))))
      \<and> up (touching (bodies (snd (CheckOverlapY update body ci w)) r))
          = (up (touching (bodies w r)) \<or> r = ci_body1 (update w ci))
      \<and> down (touching (bodies (snd (CheckOverlapY update body ci w)) r))
          = (down (touching (bodies w r)) \<or> r = ci_body2 (update w ci))
      \<and> up (blocked (bodies (snd (CheckOverlapY update body ci w)) r))
          = (up (blocked (bodies w r)) \<or> r = ci_body1 (update w ci))
      \<and> down (blocked (bodies (snd (CheckOverlapY update body ci w)) r))
          = (down (blocked (bodies w r)) \<or> r = ci_body2 (update w ci))"
      unfolding after
      using up_then_down [of "ci_body2 (update w ci)" "ci_body1 (update w ci)" w]
        up_then_down_exact [of "ci_body2 (update w ci)" "ci_body1 (update w ci)" w r]
      by blast
  qed
next
  show "ci_face (update w ci) = FACING_DOWN \<longrightarrow>
      down (touching (bodies (snd (CheckOverlapY update body ci w)) (ci_body1 (update w ci))))
    \<and> down (blocked (bodies (snd (CheckOverlapY update body ci w)) (ci_body1 (update w ci))))
    \<and> up (touching (bodies (snd (CheckOverlapY update body ci w)) (ci_body2 (update w ci))))
    \<and> up (blocked (bodies (snd (CheckOverlapY update body ci w)) (ci_body2 (update w ci))))
    \<and> down (touching (bodies (snd (CheckOverlapY update body ci w)) r))
        = (down (touching (bodies w r)) \<or> r = ci_body1 (update w ci))
    \<and> up (touching (bodies (snd (CheckOverlapY update body ci w)) r))
        = (up (touching (bodies w r)) \<or> r = ci_body2 (update w ci))
    \<and> down (blocked (bodies (snd (CheckOverlapY update body ci w)) r))
        = (down (blocked (bodies w r)) \<or> r = ci_body1 (update w ci))
    \<and> up (blocked (bodies (snd (CheckOverlapY update body ci w)) r))
        = (up (blocked (bodies w r)) \<or> r = ci_body2 (update w ci))"
  proof
    assume "ci_face (update w ci) = FACING_DOWN"
    then have after: "snd (CheckOverlapY update body ci w)
        = setBlockedUp (ci_body2 (update w ci)) (setBlockedDown (ci_body1 (update w ci))
            (setTouchingUp (ci_body2 (update w ci))
              (setTouchingDown (ci_body1 (update w ci)) w)))"
      by (rule CheckOverlapY_down)
    show "down (touching (bodies (snd (CheckOverlapY update body ci w)) (ci_body1 (update w ci))))
      \<and> down (blocked (bodies (snd (CheckOverlapY update body ci w)) (ci_body1 (update w ci))))
      \<and> up (touching (bodies (snd (CheckOverlapY update body ci w)) (ci_body2 (update w ci))))
      \<and> up (blocked (bodies (snd (CheckOverlapY update body ci w)) (ci_body2 (update w ci))))
      \<and> down (touching (bodies (snd (CheckOverlapY update body ci w)) r))
          = (down (touching (bodies w r)) \<or> r = ci_body1 (update w ci))
      \<and> up (touching (bodies (snd (CheckOverlapY update body ci w)) r))
          = (up (touching (bodies w r)) \<or> r = ci_body2 (update w ci))
      \<and> down (blocked (bodies (snd (CheckOverlapY update body ci w)) r))
          = (down (blocked (bodies w r)) \<or> r = ci_body1 (update w ci))
      \<and> up (blocked (bodies (snd (CheckOverlapY update body ci w)) r))
          = (up (blocked (bodies w r)) \<or> r = ci_body2 (update w ci))"
      unfolding after
      using down_then_up [of "ci_body2 (update w ci)" "ci_body1 (update w ci)" w]
        down_then_up_exact [of "ci_body2 (update w ci)" "ci_body1 (update w ci)" w r]
      by blast
  qed
qed

text \<open>
  At bodies 0 and 1 with no flag set whose edges meet, body 0 once below and once above
  body 1: each body gets its own pair of flags and not the pair of the other.
\<close>

theorem CheckOverlapY_mirrored_witness:
  "ci_face (CollisionInfo_update by_velocity meets_above fresh_info) = FACING_UP
   \<and> up (touching (bodies (snd (check_pair meets_above)) 0))
   \<and> up (blocked (bodies (snd (check_pair meets_above)) 0))
   \<and> \<not> down (touching (bodies (snd (check_pair meets_above)) 0))
   \<and> \<not> down (blocked (bodies (snd (check_pair meets_above)) 0))
   \<and> down (touching (bodies (snd (check_pair meets_above)) 1))
   \<and> down (blocked (bodies (snd (check_pair meets_above)) 1))
   \<and> \<not> up (touching (bodies (snd (check_pair meets_above)) 1))
   \<and> \<not> up (blocked (bodies (snd (check_pair meets_above)) 1))
   \<and> ci_face (CollisionInfo_update by_velocity meets_below fresh_info) = FACING_DOWN
   \<and> down (touching (bodies (snd (check_pair meets_below)) 0))
   \<and> down (blocked (bodies (snd (check_pair meets_below)) 0))
   \<and> \<not> up (touching (bodies (snd (check_pair meets_below)) 0))
   \<and> \<not> up (blocked (bodies (snd (check_pair meets_below)) 0))
   \<and> up (touching (bodies (snd (check_pair meets_below)) 1))
   \<and> up (blocked (bodies (snd (check_pair meets_below)) 1))
   \<and> \<not> down (touching (bodies (snd (check_pair meets_below)) 1))
   \<and> \<not> down (blocked (bodies (snd (check_pair meets_below)) 1))"
proof -
  have before_above:
    "\<not> up (touching (bodies meets_above 1))" "\<not> up (blocked (bodies meets_above 1))"
    "\<not> down (touching (bodies meets_above 0))" "\<not> down (blocked (bodies meets_above 0))"
    by (simp_all add: meets_above_def pair_world_def moving_body_def mk_body_def
        no_faces_def no_touching_def)
  have before_below:
    "\<not> up (touching (bodies meets_below 0))" "\<not> up (blocked (bodies meets_below 0))"
    "\<not> down (touching (bodies meets_below 1))" "\<not> down (blocked (bodies meets_below 1))"
    by (simp_all add: meets_below_def pair_world_def moving_body_def mk_body_def
        no_faces_def no_touching_def)
  show ?thesis
    using before_above before_below
      CheckOverlapY_mirrored [of "CollisionInfo_update by_velocity" meets_above fresh_info 0 0]
      CheckOverlapY_mirrored [of "CollisionInfo_update by_velocity" meets_above fresh_info 0 1]
      CheckOverlapY_mirrored [of "CollisionInfo_update by_velocity" meets_below fresh_info 0 0]
      CheckOverlapY_mirrored [of "CollisionInfo_update by_velocity" meets_below fresh_info 0 1]
    by (simp add: check_pair_def update_meets_above update_meets_below)
qed

text \<open>
  Claim C7, as amended. CheckOverlapY sets the blocked flags by the face of the updated
  CollisionInfo alone: for FACING_UP and FACING_DOWN both bodies get their blocked flag,
  for any other face no blocked flag of any body changes, and the store after the call
  does not depend on the touching flag, which is only returned.
\<close>

theorem CheckOverlapY_blocked_by_face:
  "(ci_face (update w ci) = FACING_UP \<longrightarrow>
      up (blocked (bodies (snd (CheckOverlapY update body ci w)) (ci_body1 (update w ci))))
    \<and> down (blocked (bodies (snd (CheckOverlapY update body ci w)) (ci_body2 (update w ci)))))
   \<and> (ci_face (update w ci) = FACING_DOWN \<longrightarrow>
      down (blocked (bodies (snd (CheckOverlapY update body ci w)) (ci_body1 (update w ci))))
    \<and> up (blocked (bodies (snd (CheckOverlapY update body ci w)) (ci_body2 (update w ci)))))
   \<and> (ci_face (update w ci) \<noteq> FACING_UP \<and> ci_face (update w ci) \<noteq> FACING_DOWN \<longrightarrow>
      blocked (bodies (snd (CheckOverlapY update body ci w)) r) = blocked (bodies w r))
   \<and> snd (CheckOverlapY (\<lambda>w c. (update w c)\<lparr>ci_touching := t\<rparr>) body ci w)
       = snd (CheckOverlapY update body ci w)"
proof (intro conjI impI)
  assume up: "ci_face (update w ci) = FACING_UP"
  note flags = up_then_down [of "ci_body2 (update w ci)" "ci_body1 (update w ci)" w]
  show "up (blocked (bodies (snd (CheckOverlapY update body ci w)) (ci_body1 (update w ci))))"
    unfolding CheckOverlapY_up [of update w ci body, OF up] using flags by blast
  show "down (blocked (bodies (snd (CheckOverlapY update body ci w)) (ci_body2 (update w ci))))"
    unfolding CheckOverlapY_up [of update w ci body, OF up] using flags by blast
next
  assume down: "ci_face (update w ci) = FACING_DOWN"
  note flags = down_then_up [of "ci_body2 (update w ci)" "ci_body1 (update w ci)" w]
  show "down (blocked (bodies (snd (CheckOverlapY update body ci w)) (ci_body1 (update w ci))))"
    unfolding CheckOverlapY_down [of update w ci body, OF down] using flags by blast
  show "up (blocked (bodies (snd (CheckOverlapY update body ci w)) (ci_body2 (update w ci))))"
    unfolding CheckOverlapY_down [of update w ci body, OF down] using flags by blast
next
  assume "ci_face (update w ci) \<noteq> FACING_UP \<and> ci_face (update w ci) \<noteq> FACING_DOWN"
  then have "snd (CheckOverlapY update body ci w) = w"
    by (simp add: CheckOverlapY_neither)
  then show "blocked (bodies (snd (CheckOverlapY update body ci w)) r) = blocked (bodies w r)"
    by simp
next
  show "snd (CheckOverlapY (\<lambda>w c. (update w c)\<lparr>ci_touching := t\<rparr>) body ci w)
          = snd (CheckOverlapY update body ci w)"
    by (simp add: CheckOverlapY_def Let_def)
qed

text \<open>
  The claim as stated (blocked flags are set only when the touching flag is true) fails at
  a deep penetration: body 0 moves up and is 12 deep in body 1, which is above it. The
  recomputed CollisionInfo has the upward face and intersects, its touching flag is false,
  and the call sets \<open>blocked.up\<close> of body 0 and \<open>blocked.down\<close> of body 1, which were
  false.
\<close>

theorem CheckOverlapY_blocked_counterexample:
  "ci_intersects (CollisionInfo_update by_velocity deep_above fresh_info)
   \<and> ci_overlapY (CollisionInfo_update by_velocity deep_above fresh_info) = 12
   \<and> ci_face (CollisionInfo_update by_velocity deep_above fresh_info) = FACING_UP
   \<and> \<not> ci_touching (CollisionInfo_update by_velocity deep_above fresh_info)
   \<and> \<not> fst (check_pair deep_above)
   \<and> \<not> up (blocked (bodies deep_above 0))
   \<and> up (blocked (bodies (snd (check_pair deep_above)) 0))
   \<and> \<not> down (blocked (bodies deep_above 1))
   \<and> down (blocked (bodies (snd (check_pair deep_above)) 1))"
proof -
  have before: "\<not> up (blocked (bodies deep_above 0))" "\<not> down (blocked (bodies deep_above 1))"
    by (simp_all add: deep_above_def pair_world_def moving_body_def mk_body_def no_faces_def)
  have after: "snd (check_pair deep_above)
                 = setBlockedDown 1 (setBlockedUp 0 (setTouchingDown 1 (setTouchingUp 0 deep_above)))"
    by (simp add: check_pair_def CheckOverlapY_def Let_def update_deep_above)
  have returned: "\<not> fst (check_pair deep_above)"
    by (simp add: check_pair_def CheckOverlapY_def Let_def update_deep_above)
  show ?thesis
    using before returned
    by (simp add: after update_deep_above setter_simps)
qed

text \<open>
  The outcome does not hang on the rules chosen. For every epsilon under 12 and every
  rule for the face: if the resolving axis is the one of the smaller overlap, the check
  of the placement above returns false and sets a blocked flag of body 0; if it is the one
  of the larger overlap, the check of the placement with overlaps 12 on X and 32 on Y
  does.
\<close>

lemma deep_contact_any_rules:
  assumes "rule_epsilon rules < 12" and "rule_vertical rules 32 12"
  shows "\<not> fst (CheckOverlapY (CollisionInfo_update rules) b fresh_info deep_above)
    \<and> \<not> up (blocked (bodies deep_above 0)) \<and> \<not> down (blocked (bodies deep_above 0))
    \<and> (up (blocked (bodies (snd (CheckOverlapY (CollisionInfo_update rules) b fresh_info
              deep_above)) 0))
        \<or> down (blocked (bodies (snd (CheckOverlapY (CollisionInfo_update rules) b fresh_info
              deep_above)) 0)))"
proof -
  have info: "CollisionInfo_update rules deep_above fresh_info
      = \<lparr>ci_body1 = 0, ci_body2 = 1, ci_intersects = True, ci_overlapX = 32, ci_overlapY = 12,
         ci_face = (if rule_top rules (bodies deep_above 0) (bodies deep_above 1)
                    then FACING_UP else FACING_DOWN),
         ci_touching = False\<rparr>"
    using assms
    by (simp add: CollisionInfo_update_def body_right_def body_bottom_def Let_def
        deep_above_def pair_world_def moving_body_def mk_body_def vec_def fresh_info_def)
  have before: "\<not> up (blocked (bodies deep_above 0))" "\<not> down (blocked (bodies deep_above 0))"
    by (simp_all add: deep_above_def pair_world_def moving_body_def mk_body_def no_faces_def)
  show ?thesis
    using before
    by (simp add: CheckOverlapY_def Let_def info setter_simps)
qed

lemma deep_contact_larger_overlap:
  assumes "rule_epsilon rules < 12" and "rule_vertical rules 12 32"
  shows "\<not> fst (CheckOverlapY (CollisionInfo_update rules) b fresh_info deep_narrow)
    \<and> \<not> up (blocked (bodies deep_narrow 0)) \<and> \<not> down (blocked (bodies deep_narrow 0))
    \<and> (up (blocked (bodies (snd (CheckOverlapY (CollisionInfo_update rules) b fresh_info
              deep_narrow)) 0))
        \<or> down (blocked (bodies (snd (CheckOverlapY (CollisionInfo_update rules) b fresh_info
              deep_narrow)) 0)))"
proof -
  have info: "CollisionInfo_update rules deep_narrow fresh_info
      = \<lparr>ci_body1 = 0, ci_body2 = 1, ci_intersects = True, ci_overlapX = 12, ci_overlapY = 32,
         ci_face = (if rule_top rules (bodies deep_narrow 0) (bodies deep_narrow 1)
                    then FACING_UP else FACING_DOWN),
         ci_touching = False\<rparr>"
    using assms
    by (simp add: CollisionInfo_update_def body_right_def body_bottom_def Let_def
        deep_narrow_def pair_world_def moving_body_def mk_body_def vec_def fresh_info_def)
  have before: "\<not> up (blocked (bodies deep_narrow 0))" "\<not> down (blocked (bodies deep_narrow 0))"
    by (simp_all add: deep_narrow_def pair_world_def moving_body_def mk_body_def no_faces_def)
  show ?thesis
    using before
    by (simp add: CheckOverlapY_def Let_def info setter_simps)
qed

theorem CheckOverlapY_blocked_by_face_witness:
  "ci_face (CollisionInfo_update by_velocity deep_above fresh_info) = FACING_UP
   \<and> \<not> ci_touching (CollisionInfo_update by_velocity deep_above fresh_info)
   \<and> up (blocked (bodies (snd (check_pair deep_above)) 0))
   \<and> down (blocked (bodies (snd (check_pair deep_above)) 1))
   \<and> ci_face (CollisionInfo_update by_velocity meets_below fresh_info) = FACING_DOWN
   \<and> down (blocked (bodies (snd (check_pair meets_below)) 0))
   \<and> up (blocked (bodies (snd (check_pair meets_below)) 1))
   \<and> ci_face (CollisionInfo_update by_velocity meets_beside fresh_info) \<noteq> FACING_UP
   \<and> ci_face (CollisionInfo_update by_velocity meets_beside fresh_info) \<noteq> FACING_DOWN
   \<and> blocked (bodies (snd (check_pair meets_beside)) 0) = no_faces"
proof -
  have before: "blocked (bodies meets_beside 0) = no_faces"
    by (simp add: meets_beside_def pair_world_def moving_body_def mk_body_def)
  show ?thesis
    using before
      CheckOverlapY_blocked_by_face
        [of "CollisionInfo_update by_velocity" deep_above fresh_info 0 0 True]
      CheckOverlapY_blocked_by_face
        [of "CollisionInfo_update by_velocity" meets_below fresh_info 0 0 True]
      CheckOverlapY_blocked_by_face
        [of "CollisionInfo_update by_velocity" meets_beside fresh_info 0 0 True]
    by (simp add: check_pair_def update_deep_above update_meets_below update_meets_beside)
qed

text \<open>
  Claim C10. When the face of the updated CollisionInfo is neither FACING_UP nor
  FACING_DOWN, CheckOverlapY sets no touching or blocked flag on either body: the store is
  unchanged. In every case it returns the touching value of the updated CollisionInfo.
\<close>

theorem CheckOverlapY_other_face:
  "(ci_face (update w ci) \<noteq> FACING_UP \<and> ci_face (update w ci) \<noteq> FACING_DOWN \<longrightarrow>
      snd (CheckOverlapY update body ci w) = w
    \<and> touching (bodies (snd (CheckOverlapY update body ci w)) (ci_body1 (update w ci)))
        = touching (bodies w (ci_body1 (update w ci)))
    \<and> blocked (bodies (snd (CheckOverlapY update body ci w)) (ci_body1 (update w ci)))
        = blocked (bodies w (ci_body1 (update w ci)))
    \<and> touching (bodies (snd (CheckOverlapY update body ci w)) (ci_body2 (update w ci)))
        = touching (bodies w (ci_body2 (update w ci)))
    \<and> blocked (bodies (snd (CheckOverlapY update body ci w)) (ci_body2 (update w ci)))
        = blocked (bodies w (ci_body2 (update w ci))))
   \<and> fst (CheckOverlapY update body ci w) = ci_touching (update w ci)"
proof (rule conjI)
  show "fst (CheckOverlapY update body ci w) = ci_touching (update w ci)"
    by (rule CheckOverlapY_returns)
next
  show "ci_face (update w ci) \<noteq> FACING_UP \<and> ci_face (update w ci) \<noteq> FACING_DOWN \<longrightarrow>
      snd (CheckOverlapY update body ci w) = w
    \<and> touching (bodies (snd (CheckOverlapY update body ci w)) (ci_body1 (update w ci)))
        = touching (bodies w (ci_body1 (update w ci)))
    \<and> blocked (bodies (snd (CheckOverlapY update body ci w)) (ci_body1 (update w ci)))
        = blocked (bodies w (ci_body1 (update w ci)))
    \<and> touching (bodies (snd (CheckOverlapY update body ci w)) (ci_body2 (update w ci)))
        = touching (bodies w (ci_body2 (update w ci)))
    \<and> blocked (bodies (snd (CheckOverlapY update body ci w)) (ci_body2 (update w ci)))
        = blocked (bodies w (ci_body2 (update w ci)))"
  proof
    assume "ci_face (update w ci) \<noteq> FACING_UP \<and> ci_face (update w ci) \<noteq> FACING_DOWN"
    then have same: "snd (CheckOverlapY update body ci w) = w"
      by (simp add: CheckOverlapY_neither)
    show "snd (CheckOverlapY update body ci w) = w
      \<and> touching (bodies (snd (CheckOverlapY update body ci w)) (ci_body1 (update w ci)))
          = touching (bodies w (ci_body1 (update w ci)))
      \<and> blocked (bodies (snd (CheckOverlapY update body ci w)) (ci_body1 (update w ci)))
          = blocked (bodies w (ci_body1 (update w ci)))
      \<and> touching (bodies (snd (CheckOverlapY update body ci w)) (ci_body2 (update w ci)))
          = touching (bodies w (ci_body2 (update w ci)))
      \<and> blocked (bodies (snd (CheckOverlapY update body ci w)) (ci_body2 (update w ci)))
          = blocked (bodies w (ci_body2 (update w ci)))"
      unfolding same by simp
  qed
qed

text \<open>
  At a contact on the left face and at two bodies that are apart; the third is the deep
  contact on the upward face, where the check returns false.
\<close>

theorem CheckOverlapY_other_face_witness:
  "ci_face (CollisionInfo_update by_velocity meets_beside fresh_info) \<noteq> FACING_UP
   \<and> ci_face (CollisionInfo_update by_velocity meets_beside fresh_info) \<noteq> FACING_DOWN
   \<and> snd (check_pair meets_beside) = meets_beside
   \<and> fst (check_pair meets_beside)
   \<and> ci_face (CollisionInfo_update by_velocity apart fresh_info) = FACING_NONE
   \<and> snd (check_pair apart) = apart
   \<and> \<not> fst (check_pair apart)
   \<and> \<not> fst (check_pair deep_above)"
  using CheckOverlapY_other_face [of "CollisionInfo_update by_velocity" meets_beside fresh_info 0]
    CheckOverlapY_other_face [of "CollisionInfo_update by_velocity" apart fresh_info 0]
    CheckOverlapY_other_face [of "CollisionInfo_update by_velocity" deep_above fresh_info 0]
  by (simp add: check_pair_def update_meets_beside update_apart update_deep_above)

end
